theory Spec2Isabelle
  imports Main "HOL-Library.Word"
begin

section \<open>Python values used by check\_ssl\_certificate.py\<close>

text \<open>
  A Python \<open>str\<close> is a sequence of Unicode code points and a \<open>bytes\<close> object a sequence
  of octets. Program literals are ASCII; \<open>ascii\<close> embeds them.
\<close>

type_synonym pystr = "nat list"
type_synonym bytes = "8 word list"

definition ascii :: "string \<Rightarrow> pystr" where
  "ascii s = map of_char s"

text \<open>The decimal digits of an integer, with a minus sign when negative.\<close>

fun str_nat :: "nat \<Rightarrow> pystr" where
  "str_nat n = (if n < 10 then [48 + n] else str_nat (n div 10) @ [48 + n mod 10])"

declare str_nat.simps [simp del]

definition str_int :: "int \<Rightarrow> pystr" where
  "str_int i = (if i < 0 then 45 # str_nat (nat (- i)) else str_nat (nat i))"

text \<open>
  Exceptions that leave a function of the module. \<open>KeyError\<close> carries the missing key,
  \<open>NameError\<close> the unbound name.
\<close>

datatype exc =
  KeyError string | NameError string | UnicodeDecodeError | UnicodeEncodeError | ValueError

text \<open>
  \<open>str(n)\<close> for a Python integer. CPython refuses to convert an integer of more than
  \<open>sys.get_int_max_str_digits()\<close> decimal digits (4300 unless configured otherwise, the
  sign not counted) and raises \<open>ValueError\<close>.
\<close>

definition int_max_str_digits :: nat where
  "int_max_str_digits = 4300"

definition py_str :: "int \<Rightarrow> exc + pystr" where
  "py_str i = (if 10 ^ int_max_str_digits \<le> \<bar>i\<bar> then Inl ValueError else Inr (str_int i))"

text \<open>
  An instance of \<open>Exception\<close> raised by \<open>subprocess.Popen\<close> or by \<open>communicate\<close>
  (a missing binary, a path with an embedded null, ...), known by its \<open>str()\<close>.
\<close>

datatype popen_exc = PopenExc (exc_str: pystr)

datatype pyval = PInt int | PStr pystr | PExc popen_exc

text \<open>The text of a value.\<close>

fun str_of :: "pyval \<Rightarrow> pystr" where
  "str_of (PInt i) = str_int i"
| "str_of (PStr s) = s"
| "str_of (PExc e) = exc_str e"

text \<open>
  What \<open>"{}".format(v)\<close> puts in place of the braces: \<open>str(v)\<close>, which for an integer
  can raise.
\<close>

fun format_value :: "pyval \<Rightarrow> exc + pystr" where
  "format_value (PInt i) = py_str i"
| "format_value (PStr s) = Inr s"
| "format_value (PExc e) = Inr (exc_str e)"

text \<open>\<open>"<pre>{}<mid>{}<post>".format(v1, v2)\<close> for literal texts around the two fields.\<close>

definition format2 :: "string \<Rightarrow> string \<Rightarrow> string \<Rightarrow> pyval \<Rightarrow> pyval \<Rightarrow> exc + pystr" where
  "format2 pre mid post v1 v2 =
     (case format_value v1 of
        Inl ex \<Rightarrow> Inl ex
      | Inr a \<Rightarrow>
          (case format_value v2 of
             Inl ex \<Rightarrow> Inl ex
           | Inr b \<Rightarrow> Inr (ascii pre @ a @ ascii mid @ b @ ascii post)))"

type_synonym dict = "string \<rightharpoonup> pyval"

text \<open>\<open>d[k]\<close>: a missing key raises \<open>KeyError\<close>.\<close>

definition getitem :: "dict \<Rightarrow> string \<Rightarrow> exc + pyval" where
  "getitem d k = (case d k of None \<Rightarrow> Inl (KeyError k) | Some v \<Rightarrow> Inr v)"

subsection \<open>\<open>bytes.decode('UTF-8')\<close>\<close>

text \<open>
  The strict UTF-8 decoder: the well-formed byte sequences are those of the Unicode
  standard (no overlong forms, no surrogates, nothing above U+10FFFF); any other input
  raises \<open>UnicodeDecodeError\<close>, here \<open>None\<close>.
\<close>

definition second_ok :: "8 word \<Rightarrow> 8 word \<Rightarrow> bool" where
  "second_ok b0 b1 =
     (if b0 = 0xE0 then 0xA0 \<le> b1 \<and> b1 \<le> 0xBF
      else if b0 = 0xED then 0x80 \<le> b1 \<and> b1 \<le> 0x9F
      else if b0 = 0xF0 then 0x90 \<le> b1 \<and> b1 \<le> 0xBF
      else if b0 = 0xF4 then 0x80 \<le> b1 \<and> b1 \<le> 0x8F
      else 0x80 \<le> b1 \<and> b1 \<le> 0xBF)"

definition cont :: "8 word \<Rightarrow> bool" where
  "cont b = (0x80 \<le> b \<and> b \<le> 0xBF)"

fun utf8_decode :: "bytes \<Rightarrow> pystr option" where
  "utf8_decode [] = Some []"
| "utf8_decode (b0 # bs) =
     (if b0 \<le> 0x7F then map_option ((#) (unat b0)) (utf8_decode bs)
      else if 0xC2 \<le> b0 \<and> b0 \<le> 0xDF then
        (case bs of
           b1 # r \<Rightarrow>
             if cont b1
             then map_option ((#) ((unat b0 - 0xC0) * 64 + (unat b1 - 0x80))) (utf8_decode r)
             else None
         | _ \<Rightarrow> None)
      else if 0xE0 \<le> b0 \<and> b0 \<le> 0xEF then
        (case bs of
           b1 # b2 # r \<Rightarrow>
             if second_ok b0 b1 \<and> cont b2
             then map_option
                    ((#) ((unat b0 - 0xE0) * 4096 + (unat b1 - 0x80) * 64 + (unat b2 - 0x80)))
                    (utf8_decode r)
             else None
         | _ \<Rightarrow> None)
      else if 0xF0 \<le> b0 \<and> b0 \<le> 0xF4 then
        (case bs of
           b1 # b2 # b3 # r \<Rightarrow>
             if second_ok b0 b1 \<and> cont b2 \<and> cont b3
             then map_option
                    ((#) ((unat b0 - 0xF0) * 262144 + (unat b1 - 0x80) * 4096
                          + (unat b2 - 0x80) * 64 + (unat b3 - 0x80)))
                    (utf8_decode r)
             else None
         | _ \<Rightarrow> None)
      else None)"

definition decode :: "bytes \<Rightarrow> exc + pystr" where
  "decode b = (case utf8_decode b of None \<Rightarrow> Inl UnicodeDecodeError | Some s \<Rightarrow> Inr s)"

section \<open>The operating system as seen by the check\<close>

text \<open>
  \<open>Popen(cmd, stdout=PIPE, stderr=PIPE)\<close> followed by \<open>communicate()\<close> either raises
  or yields the return code of the child with what it wrote to stdout and stderr.
\<close>

datatype proc_result = Raised popen_exc | Exited int bytes bytes

text \<open>
  The world decides the outcome of the \<open>n\<close>-th call of \<open>Popen\<close> from its command line;
  \<open>calls\<close> records the command lines passed to \<open>Popen\<close> so far, oldest first, and
  \<open>probes\<close> the arguments of the calls of \<open>x509_checkend\<close> so far. The source keeps no
  such logs: they are what test doubles counting the calls would see.

  The world also fixes which code points the stdout of the process can encode: that
  depends on the locale and on the error handler of the stream, not on the program.
\<close>

record world =
  respond :: "nat \<Rightarrow> pystr list \<Rightarrow> proc_result"
  stdout_encodes :: "nat \<Rightarrow> bool"
  probes :: "(pystr \<times> int) list"
  calls :: "pystr list list"

text \<open>
  UTF-8 with the strict error handler, the default for stdout in a UTF-8 locale: every code
  point but the surrogates (a file name that was not UTF-8 arrives on the command line
  with code points U+DC80 to U+DCFF).
\<close>

definition utf8_strict :: "nat \<Rightarrow> bool" where
  "utf8_strict c = (c < 0xD800 \<or> 0xDFFF < c)"

definition popen_communicate :: "pystr list \<Rightarrow> world \<Rightarrow> proc_result \<times> world" where
  "popen_communicate cmd w = (respond w (length (calls w)) cmd, w\<lparr>calls := calls w @ [cmd]\<rparr>)"

section \<open>The module\<close>

definition STATUS_OK :: int where "STATUS_OK = 0"
definition STATUS_WARN :: int where "STATUS_WARN = 1"
definition STATUS_CRIT :: int where "STATUS_CRIT = 2"
definition STATUS_UNKNOWN :: int where "STATUS_UNKNOWN = 3"

text \<open>The namespace \<open>parse_args()\<close> returns; the script binds it to the global \<open>args\<close>.\<close>

record args =
  cert_filename :: pystr
  warn_days :: int
  crit_days :: int

text \<open>
  \<open>x509_checkend(cert_filename, time)\<close>. The \<open>try\<close> covers \<open>Popen\<close> and
  \<open>communicate\<close> only: \<open>str(time)\<close>, in the line that builds \<open>cmd\<close>, is before it, and
  both \<open>stderr.decode('UTF-8')\<close> are after it (they decode the same bytes, so the second
  cannot fail where the first did not).
\<close>

definition x509_checkend :: "pystr \<Rightarrow> int \<Rightarrow> world \<Rightarrow> (exc + dict) \<times> world" where
  "x509_checkend cert_path time w =
     (let w0 = w\<lparr>probes := probes w @ [(cert_path, time)]\<rparr>
      in case py_str time of
           Inl ex \<Rightarrow> (Inl ex, w0)
         | Inr digits \<Rightarrow>
     (let cmd = [ascii ''openssl'', ascii ''x509'', ascii ''-checkend'', digits,
                 ascii ''-in'', cert_path]
      in case popen_communicate cmd w0 of
           (Raised e, w') \<Rightarrow> (Inr [''result'' \<mapsto> PInt 2, ''message'' \<mapsto> PExc e], w')
         | (Exited returncode out err, w') \<Rightarrow>
             if returncode = 1 then
               (case decode err of
                  Inl ex \<Rightarrow> (Inl ex, w')
                | Inr s \<Rightarrow>
                    if \<not> s = [] then
                      (case decode err of
                         Inl ex \<Rightarrow> (Inl ex, w')
                       | Inr s' \<Rightarrow> (Inr [''result'' \<mapsto> PInt 2, ''message'' \<mapsto> PStr s'], w'))
                    else (Inr [''result'' \<mapsto> PInt 1], w'))
             else (Inr [''result'' \<mapsto> PInt 0], w')))"

text \<open>
  \<open>check_cert_expiry(cert_filename, warn, crit)\<close>. The first parameter is the module
  global \<open>args\<close>, which the WARNING branch reads: \<open>None\<close> when the name is unbound (the
  module was imported, not run as a script).
\<close>

definition check_cert_expiry ::
  "args option \<Rightarrow> pystr \<Rightarrow> int \<Rightarrow> int \<Rightarrow> world \<Rightarrow> (exc + int \<times> pystr) \<times> world" where
  "check_cert_expiry g cert_path warn crit w =
     (case x509_checkend cert_path (crit * 86400) w of
        (Inl ex, w1) \<Rightarrow> (Inl ex, w1)
      | (Inr check, w1) \<Rightarrow>
     (case getitem check ''result'' of
        Inl ex \<Rightarrow> (Inl ex, w1)
      | Inr r1 \<Rightarrow>
     if r1 = PInt 1 then
       (case format2 ''CRITICAL: Certificate '' '' due to expire in less than '' '' days.''
               (PStr cert_path) (PInt crit) of
          Inl ex \<Rightarrow> (Inl ex, w1)
        | Inr msg \<Rightarrow> (Inr (STATUS_CRIT, msg), w1))
     else
     (case getitem check ''result'' of
        Inl ex \<Rightarrow> (Inl ex, w1)
      | Inr r2 \<Rightarrow>
     if r2 = PInt 2 then
       (case getitem check ''message'' of
          Inl ex \<Rightarrow> (Inl ex, w1)
        | Inr m \<Rightarrow>
            (case format2 ''UNKNOWN: checking certificate '' '' failed with '' []
                    (PStr cert_path) m of
               Inl ex \<Rightarrow> (Inl ex, w1)
             | Inr msg \<Rightarrow> (Inr (STATUS_UNKNOWN, msg), w1)))
     else
     (case x509_checkend cert_path (warn * 86400) w1 of
        (Inl ex, w2) \<Rightarrow> (Inl ex, w2)
      | (Inr check', w2) \<Rightarrow>
     (case getitem check' ''result'' of
        Inl ex \<Rightarrow> (Inl ex, w2)
      | Inr r3 \<Rightarrow>
     if r3 = PInt 1 then
       (case g of
          None \<Rightarrow> (Inl (NameError ''args''), w2)
        | Some a \<Rightarrow>
            (case format2 ''WARNING: Certificate '' '' due to expire in less than '' '' days.''
                    (PStr (cert_filename a)) (PInt warn) of
               Inl ex \<Rightarrow> (Inl ex, w2)
             | Inr msg \<Rightarrow> (Inr (STATUS_WARN, msg), w2)))
     else
       (case format2 ''OK: Certificate '' '' has more than '' '' days before expiry''
               (PStr cert_path) (PInt warn) of
          Inl ex \<Rightarrow> (Inl ex, w2)
        | Inr msg \<Rightarrow> (Inr (STATUS_OK, msg), w2)))))))"

text \<open>
  The script from line 89 on, after \<open>parse_args()\<close> has returned \<open>args\<close>.

  \<open>print(msg)\<close> writes the text and then a newline to stdout, a text stream that encodes
  what it is given. When the text holds a code point the stream cannot encode, the write
  raises \<open>UnicodeEncodeError\<close> and nothing is written.

  An exception nothing catches ends the process with a traceback on stderr and exit
  status 1.
\<close>

record process =
  stdout :: pystr
  exit_code :: int
  uncaught :: "exc option"

definition print :: "(nat \<Rightarrow> bool) \<Rightarrow> pystr \<Rightarrow> pystr \<Rightarrow> exc + pystr" where
  "print encodes msg out =
     (if list_all encodes msg then Inr (out @ msg @ [10]) else Inl UnicodeEncodeError)"

definition main :: "args \<Rightarrow> world \<Rightarrow> process \<times> world" where
  "main a w =
     (case check_cert_expiry (Some a) (cert_filename a) (warn_days a) (crit_days a) w of
        (Inl ex, w') \<Rightarrow> (\<lparr>stdout = [], exit_code = 1, uncaught = Some ex\<rparr>, w')
      | (Inr (status, msg), w') \<Rightarrow>
          (case print (stdout_encodes w) msg [] of
             Inl ex \<Rightarrow> (\<lparr>stdout = [], exit_code = 1, uncaught = Some ex\<rparr>, w')
           | Inr out \<Rightarrow>
               if status = STATUS_CRIT then
                 (\<lparr>stdout = out, exit_code = STATUS_CRIT, uncaught = None\<rparr>, w')
               else if status = STATUS_WARN then
                 (\<lparr>stdout = out, exit_code = STATUS_WARN, uncaught = None\<rparr>, w')
               else if status = STATUS_UNKNOWN then
                 (\<lparr>stdout = out, exit_code = STATUS_UNKNOWN, uncaught = None\<rparr>, w')
               else (\<lparr>stdout = out, exit_code = 0, uncaught = None\<rparr>, w')))"

text \<open>The number of line terminators in what was written to stdout.\<close>

definition lines_written :: "pystr \<Rightarrow> nat" where
  "lines_written out = length (filter (\<lambda>c. c = 10) out)"

section \<open>Commands, paths and worlds of the properties\<close>

text \<open>The command line that \<open>x509_checkend\<close> builds for a path and a horizon.\<close>

definition checkend_cmd :: "pystr \<Rightarrow> int \<Rightarrow> pystr list" where
  "checkend_cmd cert_path time =
     [ascii ''openssl'', ascii ''x509'', ascii ''-checkend'', str_int time, ascii ''-in'', cert_path]"

definition ascii_bytes :: "string \<Rightarrow> bytes" where
  "ascii_bytes s = map of_char s"

text \<open>A certificate path and the namespace of a run with the default thresholds.\<close>

definition cert_pem :: pystr where
  "cert_pem = ascii ''/etc/ssl/cert.pem''"

definition args_default :: args where
  "args_default = \<lparr>cert_filename = cert_pem, warn_days = 14, crit_days = 7\<rparr>"

text \<open>
  A file name whose last byte before the extension is \<open>0xFF\<close>: on the command line it
  becomes the code point U+DCFF.
\<close>

definition cert_odd :: pystr where
  "cert_odd = ascii ''/etc/ssl/cert'' @ [0xDCFF] @ ascii ''.pem''"

definition args_odd :: args where
  "args_odd = \<lparr>cert_filename = cert_odd, warn_days = 14, crit_days = 7\<rparr>"

text \<open>A threshold of 4301 digits.\<close>

definition huge_days :: int where
  "huge_days = 10 ^ int_max_str_digits"

text \<open>
  Worlds. \<open>openssl x509 -checkend\<close> prints its verdict on stdout and exits with 1 when the
  certificate will expire, with 0 when it will not; when it cannot load the certificate it
  writes a diagnostic to stderr and exits with 1.
\<close>

definition will_expire :: proc_result where
  "will_expire = Exited 1 (ascii_bytes ''Certificate will expire'' @ [10]) []"

definition will_not_expire :: proc_result where
  "will_not_expire = Exited 0 (ascii_bytes ''Certificate will not expire'' @ [10]) []"

definition unable_to_load :: bytes where
  "unable_to_load = ascii_bytes ''unable to load certificate'' @ [10]"

definition world_expiring :: world where
  "world_expiring =
     \<lparr>respond = (\<lambda>n cmd. will_expire), stdout_encodes = utf8_strict,
      probes = [], calls = []\<rparr>"

definition world_valid :: world where
  "world_valid =
     \<lparr>respond = (\<lambda>n cmd. will_not_expire), stdout_encodes = utf8_strict,
      probes = [], calls = []\<rparr>"

definition world_expiring_soon :: world where
  "world_expiring_soon =
     \<lparr>respond = (\<lambda>n cmd. if n = 0 then will_not_expire else will_expire), stdout_encodes = utf8_strict,
      probes = [], calls = []\<rparr>"

definition world_unreadable :: world where
  "world_unreadable =
     \<lparr>respond = (\<lambda>n cmd. Exited 1 [] unable_to_load), stdout_encodes = utf8_strict,
      probes = [], calls = []\<rparr>"

definition world_unreadable_late :: world where
  "world_unreadable_late =
     \<lparr>respond = (\<lambda>n cmd. if n = 0 then will_not_expire else Exited 1 [] unable_to_load),
      stdout_encodes = utf8_strict,
      probes = [], calls = []\<rparr>"

definition world_no_openssl :: world where
  "world_no_openssl =
     \<lparr>respond = (\<lambda>n cmd. Raised (PopenExc (ascii ''[Errno 2] No such file or directory''))),
      stdout_encodes = utf8_strict,
      probes = [], calls = []\<rparr>"

text \<open>Diagnostics that are not UTF-8: a lone \<open>0xFF\<close>, and \<open>0xC3\<close> with no continuation byte.\<close>

definition world_bad_stderr :: world where
  "world_bad_stderr =
     \<lparr>respond = (\<lambda>n cmd. Exited 1 [] [0xFF]), stdout_encodes = utf8_strict,
      probes = [], calls = []\<rparr>"

definition world_bad_stderr_late :: world where
  "world_bad_stderr_late =
     \<lparr>respond = (\<lambda>n cmd. if n = 0 then will_not_expire else Exited 1 [] [0xC3, 0x28]),
      stdout_encodes = utf8_strict,
      probes = [], calls = []\<rparr>"

definition world_exit2 :: world where
  "world_exit2 =
     \<lparr>respond = (\<lambda>n cmd. Exited 2 [] unable_to_load), stdout_encodes = utf8_strict,
      probes = [], calls = []\<rparr>"

text \<open>
  A world with a history, which answers its second and third spawn as
  \<open>world_expiring_soon\<close> answers its first and second.
\<close>

definition world_busy :: world where
  "world_busy =
     \<lparr>respond = (\<lambda>n cmd. if n = 1 then will_not_expire else will_expire),
      stdout_encodes = utf8_strict,
      probes = [(ascii ''other.pem'', 0)], calls = [[ascii ''true'']]\<rparr>"

section \<open>Rendering integers\<close>

lemma py_str_ok: "\<bar>i\<bar> < 10 ^ int_max_str_digits \<Longrightarrow> py_str i = Inr (str_int i)"
  by (simp add: py_str_def)

lemma py_str_small: "\<bar>i\<bar> < 10 ^ 10 \<Longrightarrow> py_str i = Inr (str_int i)"
proof -
  assume a: "\<bar>i\<bar> < 10 ^ 10"
  have "(10::int) ^ 10 \<le> 10 ^ int_max_str_digits"
    by (rule power_increasing) (simp_all add: int_max_str_digits_def)
  with a have "\<bar>i\<bar> < 10 ^ int_max_str_digits"
    by (rule less_le_trans)
  then show ?thesis
    by (rule py_str_ok)
qed

lemma py_str_Inr: "py_str i = Inr s \<Longrightarrow> s = str_int i \<and> \<bar>i\<bar> < 10 ^ int_max_str_digits"
  by (simp add: py_str_def split: if_splits)

lemma py_str_Inl: "py_str i = Inl ex \<Longrightarrow> ex = ValueError \<and> 10 ^ int_max_str_digits \<le> \<bar>i\<bar>"
  by (simp add: py_str_def split: if_splits)

lemma py_str_days: "py_str (x * 86400) = Inr s \<Longrightarrow> py_str x = Inr (str_int x)"
proof -
  assume "py_str (x * 86400) = Inr s"
  then have "\<bar>x * 86400\<bar> < 10 ^ int_max_str_digits"
    by (simp add: py_str_Inr)
  moreover have "\<bar>x\<bar> \<le> \<bar>x * 86400\<bar>"
    by (simp add: abs_mult)
  ultimately have "\<bar>x\<bar> < 10 ^ int_max_str_digits"
    by (rule le_less_trans [rotated])
  then show ?thesis
    by (rule py_str_ok)
qed

lemma py_str_huge: "py_str (huge_days * 86400) = Inl ValueError"
proof -
  have "(0::int) \<le> 10 ^ int_max_str_digits"
    by simp
  then have "(10::int) ^ int_max_str_digits \<le> \<bar>10 ^ int_max_str_digits * 86400\<bar>"
    by (simp add: abs_mult)
  then show ?thesis
    by (simp add: py_str_def huge_days_def)
qed

section \<open>What a probe does\<close>

text \<open>
  The world after a probe, the outcome of a probe in terms of the answer of the world, and
  the classifier in terms of the outcomes of its probes.
\<close>

lemma x509_checkend_snd:
  "snd (x509_checkend p t w) =
     w\<lparr>probes := probes w @ [(p, t)],
       calls := (case py_str t of Inl ex \<Rightarrow> calls w | Inr s \<Rightarrow> calls w @ [checkend_cmd p t])\<rparr>"
  by (auto simp add: x509_checkend_def popen_communicate_def checkend_cmd_def Let_def
        dest: py_str_Inr split: proc_result.splits sum.splits)

lemma x509_checkend_probes: "probes (snd (x509_checkend p t w)) = probes w @ [(p, t)]"
  by (simp add: x509_checkend_snd)

lemma x509_checkend_fst:
  "fst (x509_checkend p t w) =
     (case py_str t of
        Inl ex \<Rightarrow> Inl ex
      | Inr digits \<Rightarrow>
     (case respond w (length (calls w)) (checkend_cmd p t) of
        Raised e \<Rightarrow> Inr [''result'' \<mapsto> PInt 2, ''message'' \<mapsto> PExc e]
      | Exited rc out err \<Rightarrow>
          if rc = 1 then
            (case utf8_decode err of
               None \<Rightarrow> Inl UnicodeDecodeError
             | Some s \<Rightarrow> if s = [] then Inr [''result'' \<mapsto> PInt 1]
                         else Inr [''result'' \<mapsto> PInt 2, ''message'' \<mapsto> PStr s])
          else Inr [''result'' \<mapsto> PInt 0]))"
  by (auto simp add: x509_checkend_def popen_communicate_def checkend_cmd_def Let_def decode_def
        dest: py_str_Inr split: proc_result.splits sum.splits option.splits)

lemma x509_checkend_rendered:
  assumes "fst (x509_checkend p t w) = Inr d"
  shows "py_str t = Inr (str_int t)"
  using assms py_str_Inr [of t]
  by (cases "py_str t") (auto simp: x509_checkend_fst)

lemma x509_checkend_shape:
  assumes "fst (x509_checkend p t w) = Inr d"
  shows "(d ''result'' = Some (PInt 0) \<or> d ''result'' = Some (PInt 1)
          \<or> d ''result'' = Some (PInt 2))
         \<and> (d ''result'' = Some (PInt 2) \<longrightarrow> (\<exists>m. d ''message'' = Some m))"
  using assms unfolding x509_checkend_fst
  by (auto split: sum.splits proc_result.splits option.splits if_splits)

lemma x509_checkend_message:
  assumes "fst (x509_checkend p t w) = Inr d" and "d ''message'' = Some m"
  shows "format_value m = Inr (str_of m)"
  using assms unfolding x509_checkend_fst
  by (auto split: sum.splits proc_result.splits option.splits if_splits)

lemma ascii_Nil: "ascii [] = []"
  by (simp add: ascii_def)

lemma check_cert_expiry_raw:
  "check_cert_expiry g p warn crit w =
     (let c1 = x509_checkend p (crit * 86400) w; w1 = snd c1 in
      case fst c1 of Inl ex \<Rightarrow> (Inl ex, w1)
      | Inr check \<Rightarrow>
        if check ''result'' = None then (Inl (KeyError ''result''), w1)
        else if check ''result'' = Some (PInt 1) then
          (case format2 ''CRITICAL: Certificate '' '' due to expire in less than '' '' days.''
                  (PStr p) (PInt crit) of
             Inl ex \<Rightarrow> (Inl ex, w1)
           | Inr msg \<Rightarrow> (Inr (STATUS_CRIT, msg), w1))
        else if check ''result'' = Some (PInt 2) then
          (case check ''message'' of None \<Rightarrow> (Inl (KeyError ''message''), w1)
           | Some m \<Rightarrow>
              (case format2 ''UNKNOWN: checking certificate '' '' failed with '' []
                      (PStr p) m of
                 Inl ex \<Rightarrow> (Inl ex, w1)
               | Inr msg \<Rightarrow> (Inr (STATUS_UNKNOWN, msg), w1)))
        else
          (let c2 = x509_checkend p (warn * 86400) w1; w2 = snd c2 in
           case fst c2 of Inl ex \<Rightarrow> (Inl ex, w2)
           | Inr check' \<Rightarrow>
             if check' ''result'' = None then (Inl (KeyError ''result''), w2)
             else if check' ''result'' = Some (PInt 1) then
               (case g of None \<Rightarrow> (Inl (NameError ''args''), w2)
                | Some a \<Rightarrow>
                   (case format2 ''WARNING: Certificate '' '' due to expire in less than ''
                           '' days.'' (PStr (cert_filename a)) (PInt warn) of
                      Inl ex \<Rightarrow> (Inl ex, w2)
                    | Inr msg \<Rightarrow> (Inr (STATUS_WARN, msg), w2)))
             else
               (case format2 ''OK: Certificate '' '' has more than '' '' days before expiry''
                       (PStr p) (PInt warn) of
                  Inl ex \<Rightarrow> (Inl ex, w2)
                | Inr msg \<Rightarrow> (Inr (STATUS_OK, msg), w2))))"
proof -
  obtain r1 w1 where c1: "x509_checkend p (crit * 86400) w = (r1, w1)"
    by (cases "x509_checkend p (crit * 86400) w")
  obtain r2 w2 where c2: "x509_checkend p (warn * 86400) w1 = (r2, w2)"
    by (cases "x509_checkend p (warn * 86400) w1")
  show ?thesis
  proof (cases r1)
    case (Inl ex)
    with c1 show ?thesis
      by (simp add: check_cert_expiry_def)
  next
    case (Inr check)
    show ?thesis
    proof (cases "check ''result''")
      case None
      with c1 Inr show ?thesis
        by (simp add: check_cert_expiry_def getitem_def)
    next
      case (Some v)
      show ?thesis
      proof (cases "v = PInt 1")
        case True
        with c1 Inr Some show ?thesis
          by (simp add: check_cert_expiry_def getitem_def split: sum.split)
      next
        case n1: False
        show ?thesis
        proof (cases "v = PInt 2")
          case True
          with c1 Inr Some n1 show ?thesis
            by (simp add: check_cert_expiry_def getitem_def split: sum.split option.split)
        next
          case n2: False
          show ?thesis
          proof (cases r2)
            case (Inl ex)
            with c1 c2 Inr Some n1 n2 show ?thesis
              by (simp add: check_cert_expiry_def getitem_def)
          next
            case r2: (Inr check')
            with c1 c2 Inr Some n1 n2 show ?thesis
              by (simp add: check_cert_expiry_def getitem_def split: sum.split option.split)
          qed
        qed
      qed
    qed
  qed
qed

lemma format2_ok:
  "format_value v1 = Inr a \<Longrightarrow> format_value v2 = Inr b \<Longrightarrow>
   format2 pre mid post v1 v2 = Inr (ascii pre @ a @ ascii mid @ b @ ascii post)"
  by (simp add: format2_def)

lemma check_cert_expiry_unfold:
  "check_cert_expiry g p warn crit w =
     (let c1 = x509_checkend p (crit * 86400) w; w1 = snd c1 in
      case fst c1 of Inl ex \<Rightarrow> (Inl ex, w1)
      | Inr check \<Rightarrow>
        if check ''result'' = None then (Inl (KeyError ''result''), w1)
        else if check ''result'' = Some (PInt 1) then
          (Inr (STATUS_CRIT, ascii ''CRITICAL: Certificate '' @ p
             @ ascii '' due to expire in less than '' @ str_int crit @ ascii '' days.''), w1)
        else if check ''result'' = Some (PInt 2) then
          (case check ''message'' of None \<Rightarrow> (Inl (KeyError ''message''), w1)
           | Some m \<Rightarrow> (Inr (STATUS_UNKNOWN, ascii ''UNKNOWN: checking certificate '' @ p
                  @ ascii '' failed with '' @ str_of m), w1))
        else
          (let c2 = x509_checkend p (warn * 86400) w1; w2 = snd c2 in
           case fst c2 of Inl ex \<Rightarrow> (Inl ex, w2)
           | Inr check' \<Rightarrow>
             if check' ''result'' = None then (Inl (KeyError ''result''), w2)
             else if check' ''result'' = Some (PInt 1) then
               (case g of None \<Rightarrow> (Inl (NameError ''args''), w2)
                | Some a \<Rightarrow> (Inr (STATUS_WARN, ascii ''WARNING: Certificate '' @ cert_filename a
                    @ ascii '' due to expire in less than '' @ str_int warn @ ascii '' days.''), w2))
             else (Inr (STATUS_OK, ascii ''OK: Certificate '' @ p
                    @ ascii '' has more than '' @ str_int warn @ ascii '' days before expiry''), w2)))"
proof (cases "fst (x509_checkend p (crit * 86400) w)")
  case (Inl ex)
  then show ?thesis
    by (simp add: check_cert_expiry_raw Let_def)
next
  case (Inr check)
  from x509_checkend_rendered [OF Inr] have crit: "py_str crit = Inr (str_int crit)"
    by (rule py_str_days)
  have msg: "\<And>m. check ''message'' = Some m \<Longrightarrow> format_value m = Inr (str_of m)"
    using x509_checkend_message [OF Inr] .
  let ?w1 = "snd (x509_checkend p (crit * 86400) w)"
  show ?thesis
  proof (cases "fst (x509_checkend p (warn * 86400) ?w1)")
    case (Inl ex)
    with Inr crit msg show ?thesis
      by (auto simp add: check_cert_expiry_raw Let_def format2_ok ascii_Nil split: option.splits)
  next
    case c2: (Inr check')
    from x509_checkend_rendered [OF c2] have warn: "py_str warn = Inr (str_int warn)"
      by (rule py_str_days)
    from Inr c2 crit warn msg show ?thesis
      by (auto simp add: check_cert_expiry_raw Let_def format2_ok ascii_Nil split: option.splits)
  qed
qed

lemma x509_checkend_raises_iff:
  "(fst (x509_checkend p t w) = Inl ex) =
     (ex = ValueError \<and> 10 ^ int_max_str_digits \<le> \<bar>t\<bar>
      \<or> ex = UnicodeDecodeError \<and> \<bar>t\<bar> < 10 ^ int_max_str_digits
        \<and> (\<exists>out err. respond w (length (calls w)) (checkend_cmd p t) = Exited 1 out err
                        \<and> utf8_decode err = None))"
  by (auto simp: x509_checkend_fst py_str_def
        split: sum.splits proc_result.splits option.splits if_splits)

text \<open>
  A horizon of more than 4300 digits: \<open>str(time)\<close> raises before \<open>Popen\<close> is reached, the
  probe is logged and no command is spawned.
\<close>

lemma x509_checkend_raises_on_huge_horizon:
  "x509_checkend p (huge_days * 86400) w
     = (Inl ValueError, w\<lparr>probes := probes w @ [(p, huge_days * 86400)]\<rparr>)"
  by (simp add: prod_eq_iff x509_checkend_fst x509_checkend_snd py_str_huge)

lemma check_cert_expiry_probes:
  "probes (snd (check_cert_expiry g p warn crit w)) = probes w @ [(p, crit * 86400)]
   \<or> probes (snd (check_cert_expiry g p warn crit w))
       = probes w @ [(p, crit * 86400), (p, warn * 86400)]"
  unfolding check_cert_expiry_unfold
  by (simp add: Let_def x509_checkend_probes split: sum.splits option.splits)

lemma check_cert_expiry_calls:
  assumes "py_str (crit * 86400) = Inr s"
  shows "calls (snd (check_cert_expiry g p warn crit w)) = calls w @ [checkend_cmd p (crit * 86400)]
   \<or> calls (snd (check_cert_expiry g p warn crit w))
       = calls w @ [checkend_cmd p (crit * 86400), checkend_cmd p (warn * 86400)]"
  unfolding check_cert_expiry_unfold using assms
  by (simp add: Let_def x509_checkend_snd split: sum.splits option.splits)

lemma unable_to_load_decode:
  "utf8_decode unable_to_load = Some (ascii ''unable to load certificate'' @ [10])"
  by (simp add: unable_to_load_def ascii_bytes_def ascii_def)

lemma status_values:
  "STATUS_OK = 0 \<and> STATUS_WARN = 1 \<and> STATUS_CRIT = 2 \<and> STATUS_UNKNOWN = 3"
  by (simp add: STATUS_OK_def STATUS_WARN_def STATUS_CRIT_def STATUS_UNKNOWN_def)

lemma check_cert_expiry_status:
  assumes "fst (check_cert_expiry g p warn crit w) = Inr (status, msg)"
  shows "status = STATUS_OK \<or> status = STATUS_WARN \<or> status = STATUS_CRIT
         \<or> status = STATUS_UNKNOWN"
  using assms unfolding check_cert_expiry_unfold
  by (auto simp: Let_def split: sum.splits option.splits if_splits)

section \<open>The script\<close>

text \<open>
  The process in terms of the classifier, how a message begins, and where it can hold a
  newline.
\<close>

lemma main_fst:
  "fst (main a w) =
     (case fst (check_cert_expiry (Some a) (cert_filename a) (warn_days a) (crit_days a) w) of
        Inl ex \<Rightarrow> \<lparr>stdout = [], exit_code = 1, uncaught = Some ex\<rparr>
      | Inr (status, msg) \<Rightarrow>
          if list_all (stdout_encodes w) msg then
            \<lparr>stdout = msg @ [10],
             exit_code = (if status = STATUS_CRIT then STATUS_CRIT
                          else if status = STATUS_WARN then STATUS_WARN
                          else if status = STATUS_UNKNOWN then STATUS_UNKNOWN else 0),
             uncaught = None\<rparr>
          else \<lparr>stdout = [], exit_code = 1, uncaught = Some UnicodeEncodeError\<rparr>)"
  by (simp add: main_def print_def Let_def split: prod.splits sum.splits)

lemma lines_written_print:
  "lines_written (msg @ [10]) = Suc (lines_written msg)"
  by (simp add: lines_written_def)

lemma lines_written_0: "(lines_written msg = 0) = (10 \<notin> set msg)"
  by (induction msg) (auto simp: lines_written_def)

lemma lines_written_append: "lines_written (xs @ ys) = lines_written xs + lines_written ys"
  by (simp add: lines_written_def)

lemma str_nat_digits: "set (str_nat n) \<subseteq> {48..57}"
proof (induction n rule: str_nat.induct)
  case (1 n)
  show ?case
  proof (cases "n < 10")
    case True
    then show ?thesis by (subst str_nat.simps) auto
  next
    case False
    have "n mod 10 < 10" by simp
    then have "48 + n mod 10 \<in> {48..57}" by auto
    with False 1 show ?thesis by (subst str_nat.simps) auto
  qed
qed

lemma str_int_no_newline: "10 \<notin> set (str_int i)"
  using str_nat_digits [of "nat i"] str_nat_digits [of "nat (- i)"]
  by (auto simp: str_int_def)

lemma check_cert_expiry_message_no_newline:
  assumes "fst (check_cert_expiry (Some a) p warn crit w) = Inr (status, msg)"
    and "status \<noteq> STATUS_UNKNOWN"
    and "10 \<notin> set p" and "10 \<notin> set (cert_filename a)"
  shows "10 \<notin> set msg"
  using assms unfolding check_cert_expiry_unfold
  by (auto simp: Let_def str_int_no_newline ascii_def split: sum.splits option.splits if_splits)

lemma check_cert_expiry_message_prefix:
  assumes "fst (check_cert_expiry g p warn crit w) = Inr (status, msg)"
  shows "(status = STATUS_OK \<longrightarrow> take 4 msg = ascii ''OK: '')
         \<and> (status = STATUS_WARN \<longrightarrow> take 9 msg = ascii ''WARNING: '')
         \<and> (status = STATUS_CRIT \<longrightarrow> take 10 msg = ascii ''CRITICAL: '')
         \<and> (status = STATUS_UNKNOWN \<longrightarrow> take 9 msg = ascii ''UNKNOWN: '')"
  using assms unfolding check_cert_expiry_unfold
  by (auto simp: Let_def ascii_def STATUS_OK_def STATUS_WARN_def STATUS_CRIT_def
        STATUS_UNKNOWN_def split: sum.splits option.splits if_splits)

lemma check_cert_expiry_unknown_message:
  assumes "fst (check_cert_expiry g p warn crit w) = Inr (status, msg)"
    and "fst (x509_checkend p (crit * 86400) w) = Inr d"
    and "d ''result'' = Some (PInt 2)" and "d ''message'' = Some m"
  shows "status = STATUS_UNKNOWN
         \<and> msg = ascii ''UNKNOWN: checking certificate '' @ p @ ascii '' failed with '' @ str_of m"
  using assms unfolding check_cert_expiry_unfold
  by (auto simp: Let_def)

section \<open>The classifier\<close>

text \<open>
  Claim C1. For every certificate path and all thresholds, the first call of the prober
  that the classifier makes is the one at horizon \<open>crit * 86400\<close> seconds, and whenever
  \<open>str\<close> can render that horizon the first command spawned is the \<open>-checkend\<close> command for
  it. When that probe returns result 1 (Expiring), the classifier returns \<open>STATUS_CRIT\<close>
  whatever \<open>warn\<close> is and however it relates to \<open>crit\<close>, and the warning-horizon probe is
  not invoked: the log of probes and the log of spawned commands have each grown by the
  critical-horizon entry alone.
\<close>

theorem critical_probe_first_and_final:
  "take (Suc (length (probes w))) (probes (snd (check_cert_expiry g p warn crit w)))
     = probes w @ [(p, crit * 86400)]
   \<and> (\<forall>s. py_str (crit * 86400) = Inr s \<longrightarrow>
         take (Suc (length (calls w))) (calls (snd (check_cert_expiry g p warn crit w)))
           = calls w @ [checkend_cmd p (crit * 86400)])
   \<and> (\<forall>d. fst (x509_checkend p (crit * 86400) w) = Inr d \<and> d ''result'' = Some (PInt 1) \<longrightarrow>
         fst (check_cert_expiry g p warn crit w)
           = Inr (STATUS_CRIT,
                  ascii ''CRITICAL: Certificate '' @ p @ ascii '' due to expire in less than ''
                  @ str_int crit @ ascii '' days.'')
         \<and> probes (snd (check_cert_expiry g p warn crit w)) = probes w @ [(p, crit * 86400)]
         \<and> calls (snd (check_cert_expiry g p warn crit w))
             = calls w @ [checkend_cmd p (crit * 86400)])"
proof (intro conjI allI impI)
  show "take (Suc (length (probes w))) (probes (snd (check_cert_expiry g p warn crit w)))
          = probes w @ [(p, crit * 86400)]"
    using check_cert_expiry_probes [of g p warn crit w] by auto
next
  fix s
  assume "py_str (crit * 86400) = Inr s"
  from check_cert_expiry_calls [OF this, of g p warn w]
  show "take (Suc (length (calls w))) (calls (snd (check_cert_expiry g p warn crit w)))
          = calls w @ [checkend_cmd p (crit * 86400)]"
    by auto
next
  fix d
  assume h: "fst (x509_checkend p (crit * 86400) w) = Inr d \<and> d ''result'' = Some (PInt 1)"
  then show "fst (check_cert_expiry g p warn crit w)
           = Inr (STATUS_CRIT,
                  ascii ''CRITICAL: Certificate '' @ p @ ascii '' due to expire in less than ''
                  @ str_int crit @ ascii '' days.'')"
    by (simp add: check_cert_expiry_unfold Let_def)
  from h show "probes (snd (check_cert_expiry g p warn crit w)) = probes w @ [(p, crit * 86400)]"
    by (simp add: check_cert_expiry_unfold Let_def x509_checkend_probes)
  from h have "py_str (crit * 86400) = Inr (str_int (crit * 86400))"
    using x509_checkend_rendered by blast
  with h show "calls (snd (check_cert_expiry g p warn crit w))
             = calls w @ [checkend_cmd p (crit * 86400)]"
    by (simp add: check_cert_expiry_unfold Let_def x509_checkend_snd)
qed

text \<open>
  C1 at a certificate that expires within 7 days, with the default thresholds.
\<close>

theorem critical_probe_first_and_final_witness:
  "py_str (7 * 86400) = Inr (ascii ''604800'')
   \<and> fst (x509_checkend cert_pem (7 * 86400) world_expiring) = Inr [''result'' \<mapsto> PInt 1]
   \<and> fst (check_cert_expiry None cert_pem 14 7 world_expiring)
       = Inr (2, ascii ''CRITICAL: Certificate /etc/ssl/cert.pem due to expire in less than 7 days.'')
   \<and> probes (snd (check_cert_expiry None cert_pem 14 7 world_expiring)) = [(cert_pem, 604800)]
   \<and> calls (snd (check_cert_expiry None cert_pem 14 7 world_expiring))
       = [[ascii ''openssl'', ascii ''x509'', ascii ''-checkend'', ascii ''604800'',
           ascii ''-in'', ascii ''/etc/ssl/cert.pem'']]"
proof -
  have s: "py_str (7 * 86400) = Inr (ascii ''604800'')"
    by (simp add: py_str_small str_int_def str_nat.simps ascii_def)
  have h: "fst (x509_checkend cert_pem (7 * 86400) world_expiring) = Inr [''result'' \<mapsto> PInt 1]"
    by (simp add: x509_checkend_fst py_str_small world_expiring_def will_expire_def)
  have c: "calls world_expiring = [] \<and> probes world_expiring = []"
    by (simp add: world_expiring_def)
  show ?thesis
    using s h critical_probe_first_and_final
            [where w = world_expiring and p = cert_pem and crit = 7 and warn = 14 and g = None]
    by (simp add: c checkend_cmd_def cert_pem_def STATUS_CRIT_def str_int_def str_nat.simps
          ascii_def)
qed

text \<open>
  Claim C2. When the critical-horizon probe returns result 0 (NotExpiring) and the
  warning-horizon probe returns result 2 (Indeterminate), the classifier returns
  \<open>STATUS_OK\<close>, which is not \<open>STATUS_UNKNOWN\<close>, and the message says that the certificate
  has more than \<open>warn\<close> days before expiry.
\<close>

theorem warning_probe_indeterminate_gives_ok:
  assumes "fst (x509_checkend p (crit * 86400) w) = Inr d1"
    and "d1 ''result'' = Some (PInt 0)"
    and "fst (x509_checkend p (warn * 86400) (snd (x509_checkend p (crit * 86400) w))) = Inr d2"
    and "d2 ''result'' = Some (PInt 2)"
  shows "fst (check_cert_expiry g p warn crit w)
           = Inr (STATUS_OK,
                  ascii ''OK: Certificate '' @ p @ ascii '' has more than '' @ str_int warn
                  @ ascii '' days before expiry'')
         \<and> STATUS_OK \<noteq> STATUS_UNKNOWN"
  using assms
  by (simp add: check_cert_expiry_unfold Let_def STATUS_OK_def STATUS_UNKNOWN_def)

text \<open>
  C2 in a run where the certificate can be read by the first probe and not by the second.
\<close>

theorem warning_probe_indeterminate_gives_ok_witness:
  "fst (x509_checkend cert_pem (7 * 86400) world_unreadable_late) = Inr [''result'' \<mapsto> PInt 0]
   \<and> fst (x509_checkend cert_pem (14 * 86400)
            (snd (x509_checkend cert_pem (7 * 86400) world_unreadable_late)))
       = Inr [''result'' \<mapsto> PInt 2,
              ''message'' \<mapsto> PStr (ascii ''unable to load certificate'' @ [10])]
   \<and> fst (check_cert_expiry None cert_pem 14 7 world_unreadable_late)
       = Inr (0, ascii ''OK: Certificate /etc/ssl/cert.pem has more than 14 days before expiry'')"
proof -
  have h1: "fst (x509_checkend cert_pem (7 * 86400) world_unreadable_late)
              = Inr [''result'' \<mapsto> PInt 0]"
    by (simp add: x509_checkend_fst py_str_small world_unreadable_late_def will_not_expire_def)
  have h2: "fst (x509_checkend cert_pem (14 * 86400)
                  (snd (x509_checkend cert_pem (7 * 86400) world_unreadable_late)))
              = Inr [''result'' \<mapsto> PInt 2,
                     ''message'' \<mapsto> PStr (ascii ''unable to load certificate'' @ [10])]"
    by (simp add: x509_checkend_fst x509_checkend_snd py_str_small world_unreadable_late_def
          unable_to_load_decode)
  show ?thesis
    using h1 h2 warning_probe_indeterminate_gives_ok [OF h1 _ h2, of None]
    by (simp add: STATUS_OK_def cert_pem_def str_int_def str_nat.simps ascii_def)
qed

text \<open>
  Claim C3, as stated, at an unreadable certificate: the critical-horizon probe is
  Indeterminate with the diagnostic of \<open>openssl\<close> as its reason, and the message of the
  classifier is not \<open>checking certificate <path> failed with <reason>\<close>: it begins with
  the name of the severity.
\<close>

theorem critical_probe_indeterminate_message_counterexample:
  "fst (x509_checkend cert_pem (7 * 86400) world_unreadable)
     = Inr [''result'' \<mapsto> PInt 2,
            ''message'' \<mapsto> PStr (ascii ''unable to load certificate'' @ [10])]
   \<and> fst (check_cert_expiry None cert_pem 14 7 world_unreadable)
       \<noteq> Inr (STATUS_UNKNOWN,
               ascii ''checking certificate /etc/ssl/cert.pem failed with unable to load certificate''
               @ [10])"
  by (simp add: x509_checkend_fst py_str_small check_cert_expiry_unfold Let_def
        world_unreadable_def unable_to_load_decode ascii_def)

text \<open>
  Claim C3, amended. When the critical-horizon probe returns result 2 (Indeterminate) with
  a reason, the classifier returns \<open>STATUS_UNKNOWN\<close> with the message
  \<open>UNKNOWN: checking certificate <path> failed with <reason>\<close>, whatever \<open>warn\<close> is, and
  the warning-horizon probe is not invoked.
\<close>

theorem critical_probe_indeterminate_gives_unknown:
  assumes "fst (x509_checkend p (crit * 86400) w) = Inr d"
    and "d ''result'' = Some (PInt 2)"
    and "d ''message'' = Some reason"
  shows "fst (check_cert_expiry g p warn crit w)
           = Inr (STATUS_UNKNOWN,
                  ascii ''UNKNOWN: checking certificate '' @ p @ ascii '' failed with ''
                  @ str_of reason)
         \<and> calls (snd (check_cert_expiry g p warn crit w))
             = calls w @ [checkend_cmd p (crit * 86400)]"
  using assms x509_checkend_rendered [OF assms(1)]
  by (simp add: check_cert_expiry_unfold Let_def x509_checkend_snd)

text \<open>
  C3, amended, in a run where \<open>openssl\<close> is not installed and \<open>Popen\<close> raises.
\<close>

theorem critical_probe_indeterminate_gives_unknown_witness:
  "fst (x509_checkend cert_pem (7 * 86400) world_no_openssl)
     = Inr [''result'' \<mapsto> PInt 2,
            ''message'' \<mapsto> PExc (PopenExc (ascii ''[Errno 2] No such file or directory''))]
   \<and> fst (check_cert_expiry None cert_pem 14 7 world_no_openssl)
       = Inr (3, ascii ''UNKNOWN: checking certificate /etc/ssl/cert.pem failed with [Errno 2] No such file or directory'')
   \<and> calls (snd (check_cert_expiry None cert_pem 14 7 world_no_openssl))
       = [[ascii ''openssl'', ascii ''x509'', ascii ''-checkend'', ascii ''604800'',
           ascii ''-in'', ascii ''/etc/ssl/cert.pem'']]"
proof -
  have h: "fst (x509_checkend cert_pem (7 * 86400) world_no_openssl)
     = Inr [''result'' \<mapsto> PInt 2,
            ''message'' \<mapsto> PExc (PopenExc (ascii ''[Errno 2] No such file or directory''))]"
    by (simp add: x509_checkend_fst py_str_small world_no_openssl_def)
  have c: "calls world_no_openssl = []"
    by (simp add: world_no_openssl_def)
  show ?thesis
    using h critical_probe_indeterminate_gives_unknown [OF h, of _ None 14]
    by (simp add: c STATUS_UNKNOWN_def cert_pem_def checkend_cmd_def str_int_def str_nat.simps
          ascii_def)
qed

text \<open>
  Claim C5 says that the WARNING message names the \<open>certificate_path\<close> argument. The
  WARNING branch formats the global \<open>args.cert_filename\<close> instead. Called with the path
  \<open>/etc/ssl/cert.pem\<close> while the global is unbound, \<open>check_cert_expiry\<close> raises
  \<open>NameError\<close>; called while the global names the file \<open>6000\<close>, the message names
  \<open>6000\<close>. In both runs the critical-horizon probe is NotExpiring and the
  warning-horizon probe is Expiring.
\<close>

theorem warning_branch_reads_global:
  "fst (x509_checkend cert_pem (7 * 86400) world_expiring_soon) = Inr [''result'' \<mapsto> PInt 0]
   \<and> fst (x509_checkend cert_pem (14 * 86400)
            (snd (x509_checkend cert_pem (7 * 86400) world_expiring_soon)))
       = Inr [''result'' \<mapsto> PInt 1]
   \<and> fst (check_cert_expiry None cert_pem 14 7 world_expiring_soon) = Inl (NameError ''args'')
   \<and> fst (check_cert_expiry (Some (args_default\<lparr>cert_filename := ascii ''6000''\<rparr>))
            cert_pem 14 7 world_expiring_soon)
       = Inr (1, ascii ''WARNING: Certificate 6000 due to expire in less than 14 days.'')"
  by (simp add: x509_checkend_fst x509_checkend_snd py_str_small check_cert_expiry_unfold Let_def
        world_expiring_soon_def will_expire_def will_not_expire_def STATUS_WARN_def
        str_int_def str_nat.simps ascii_def)

text \<open>
  What the WARNING branch does when the global \<open>args\<close> is bound and names the path
  that was passed, as in every run of the script.
\<close>

lemma warning_in_script_runs:
  assumes "fst (x509_checkend p (crit * 86400) w) = Inr d1"
    and "d1 ''result'' = Some (PInt 0)"
    and "fst (x509_checkend p (warn * 86400) (snd (x509_checkend p (crit * 86400) w))) = Inr d2"
    and "d2 ''result'' = Some (PInt 1)"
    and "g = Some a"
    and "cert_filename a = p"
  shows "fst (check_cert_expiry g p warn crit w)
           = Inr (STATUS_WARN,
                  ascii ''WARNING: Certificate '' @ p @ ascii '' due to expire in less than ''
                  @ str_int warn @ ascii '' days.'')"
  using assms
  by (simp add: check_cert_expiry_unfold Let_def)

text \<open>
  The WARNING branch in a run of the script with the default thresholds.
\<close>

lemma warning_in_script_runs_example:
  "fst (x509_checkend cert_pem (7 * 86400) world_expiring_soon) = Inr [''result'' \<mapsto> PInt 0]
   \<and> fst (x509_checkend cert_pem (14 * 86400)
            (snd (x509_checkend cert_pem (7 * 86400) world_expiring_soon)))
       = Inr [''result'' \<mapsto> PInt 1]
   \<and> cert_filename args_default = cert_pem
   \<and> fst (check_cert_expiry (Some args_default) cert_pem 14 7 world_expiring_soon)
       = Inr (1, ascii ''WARNING: Certificate /etc/ssl/cert.pem due to expire in less than 14 days.'')"
proof -
  have h1: "fst (x509_checkend cert_pem (7 * 86400) world_expiring_soon)
              = Inr [''result'' \<mapsto> PInt 0]"
    by (simp add: x509_checkend_fst py_str_small world_expiring_soon_def will_not_expire_def)
  have h2: "fst (x509_checkend cert_pem (14 * 86400)
                  (snd (x509_checkend cert_pem (7 * 86400) world_expiring_soon)))
              = Inr [''result'' \<mapsto> PInt 1]"
    by (simp add: x509_checkend_fst x509_checkend_snd py_str_small world_expiring_soon_def
          will_expire_def)
  have h3: "cert_filename args_default = cert_pem"
    by (simp add: args_default_def)
  show ?thesis
    using h1 h2 h3 warning_in_script_runs [OF h1 _ h2 _ refl h3]
    by (simp add: STATUS_WARN_def cert_pem_def str_int_def str_nat.simps ascii_def)
qed

text \<open>
  Claim C9. For a fixed path, thresholds and global \<open>args\<close>, two runs in two worlds give
  the same severity and the same message (or the same exception) whenever the
  critical-horizon probe has the same outcome in both and, where that outcome sends the
  classifier to the warning-horizon probe, that probe has the same outcome in both.
\<close>

theorem same_probe_outcomes_same_result:
  assumes "fst (x509_checkend p (crit * 86400) w1) = fst (x509_checkend p (crit * 86400) w2)"
    and "\<forall>d. fst (x509_checkend p (crit * 86400) w1) = Inr d
              \<and> d ''result'' \<noteq> Some (PInt 1) \<and> d ''result'' \<noteq> Some (PInt 2) \<longrightarrow>
            fst (x509_checkend p (warn * 86400) (snd (x509_checkend p (crit * 86400) w1)))
              = fst (x509_checkend p (warn * 86400) (snd (x509_checkend p (crit * 86400) w2)))"
  shows "fst (check_cert_expiry g p warn crit w1) = fst (check_cert_expiry g p warn crit w2)"
proof (cases "fst (x509_checkend p (crit * 86400) w1)")
  case (Inl ex)
  with assms(1) have "fst (x509_checkend p (crit * 86400) w2) = Inl ex"
    by simp
  with Inl show ?thesis
    by (simp add: check_cert_expiry_unfold Let_def)
next
  case (Inr d)
  with assms(1) have d2: "fst (x509_checkend p (crit * 86400) w2) = Inr d"
    by simp
  show ?thesis
  proof (cases "d ''result'' = Some (PInt 1) \<or> d ''result'' = Some (PInt 2)")
    case True
    with Inr d2 show ?thesis
      by (auto simp: check_cert_expiry_unfold Let_def split: option.splits)
  next
    case False
    with Inr assms(2)
    have "fst (x509_checkend p (warn * 86400) (snd (x509_checkend p (crit * 86400) w1)))
            = fst (x509_checkend p (warn * 86400) (snd (x509_checkend p (crit * 86400) w2)))"
      by blast
    with False Inr d2 show ?thesis
      by (cases "fst (x509_checkend p (warn * 86400) (snd (x509_checkend p (crit * 86400) w2)))")
         (auto simp: check_cert_expiry_unfold Let_def split: option.splits)
  qed
qed

text \<open>
  C9 for two worlds with different histories and different rules for their answers.
\<close>

theorem same_probe_outcomes_same_result_witness:
  "calls world_expiring_soon \<noteq> calls world_busy
   \<and> fst (x509_checkend cert_pem (7 * 86400) world_expiring_soon)
       = fst (x509_checkend cert_pem (7 * 86400) world_busy)
   \<and> fst (x509_checkend cert_pem (14 * 86400)
            (snd (x509_checkend cert_pem (7 * 86400) world_expiring_soon)))
       = fst (x509_checkend cert_pem (14 * 86400)
               (snd (x509_checkend cert_pem (7 * 86400) world_busy)))
   \<and> fst (check_cert_expiry (Some args_default) cert_pem 14 7 world_expiring_soon)
       = fst (check_cert_expiry (Some args_default) cert_pem 14 7 world_busy)"
proof -
  have h1: "fst (x509_checkend cert_pem (7 * 86400) world_expiring_soon)
              = fst (x509_checkend cert_pem (7 * 86400) world_busy)"
    by (simp add: x509_checkend_fst py_str_small world_expiring_soon_def world_busy_def
          will_not_expire_def)
  have h2: "fst (x509_checkend cert_pem (14 * 86400)
                  (snd (x509_checkend cert_pem (7 * 86400) world_expiring_soon)))
              = fst (x509_checkend cert_pem (14 * 86400)
                      (snd (x509_checkend cert_pem (7 * 86400) world_busy)))"
    by (simp add: x509_checkend_fst x509_checkend_snd py_str_small world_expiring_soon_def
          world_busy_def will_expire_def)
  have c: "calls world_expiring_soon \<noteq> calls world_busy"
    by (simp add: world_expiring_soon_def world_busy_def)
  from h2 have h2': "\<forall>d. fst (x509_checkend cert_pem (7 * 86400) world_expiring_soon) = Inr d
              \<and> d ''result'' \<noteq> Some (PInt 1) \<and> d ''result'' \<noteq> Some (PInt 2) \<longrightarrow>
            fst (x509_checkend cert_pem (14 * 86400)
                  (snd (x509_checkend cert_pem (7 * 86400) world_expiring_soon)))
              = fst (x509_checkend cert_pem (14 * 86400)
                      (snd (x509_checkend cert_pem (7 * 86400) world_busy)))"
    by blast
  from same_probe_outcomes_same_result [OF h1 h2', of "Some args_default"] h1 h2 c
  show ?thesis by blast
qed

section \<open>The prober\<close>

text \<open>
  Claim C4 says that \<open>x509_checkend\<close> never raises, whatever the external command does,
  arbitrary bytes on stderr included. When the command exits with status 1 and its stderr
  is the single byte \<open>0xFF\<close>, \<open>stderr.decode('UTF-8')\<close> raises outside the \<open>try\<close> and
  \<open>UnicodeDecodeError\<close> leaves \<open>x509_checkend\<close>.
\<close>

theorem x509_checkend_raises_on_undecodable_stderr:
  "respond world_bad_stderr 0 (checkend_cmd cert_pem (7 * 86400)) = Exited 1 [] [0xFF]
   \<and> x509_checkend cert_pem (7 * 86400) world_bad_stderr
       = (Inl UnicodeDecodeError,
          world_bad_stderr\<lparr>probes := [(cert_pem, 7 * 86400)],
                            calls := [checkend_cmd cert_pem (7 * 86400)]\<rparr>)"
  by (simp add: prod_eq_iff x509_checkend_fst x509_checkend_snd py_str_small
        world_bad_stderr_def)

text \<open>
  Claim C6 says that the prober returns Indeterminate, with the diagnostic as its reason,
  whenever the external command emits diagnostic text, for every exit status. When the
  command writes \<open>unable to load certificate\<close> to stderr and exits with status 2, the
  prober returns result 0 (NotExpiring) with no message, and the script reports OK with
  exit code 0.
\<close>

theorem diagnostic_with_exit_status_2_reported_ok:
  "respond world_exit2 0 (checkend_cmd cert_pem (7 * 86400)) = Exited 2 [] unable_to_load
   \<and> utf8_decode unable_to_load = Some (ascii ''unable to load certificate'' @ [10])
   \<and> fst (x509_checkend cert_pem (7 * 86400) world_exit2) = Inr [''result'' \<mapsto> PInt 0]
   \<and> fst (main args_default world_exit2)
       = \<lparr>stdout = ascii ''OK: Certificate /etc/ssl/cert.pem has more than 14 days before expiry''
                   @ [10],
          exit_code = 0, uncaught = None\<rparr>"
  by (simp add: x509_checkend_fst x509_checkend_snd py_str_small world_exit2_def
        unable_to_load_decode main_fst check_cert_expiry_unfold Let_def args_default_def
        cert_pem_def STATUS_OK_def STATUS_CRIT_def STATUS_WARN_def STATUS_UNKNOWN_def
        str_int_def str_nat.simps ascii_def utf8_strict_def)

text \<open>
  Claim C10 says that \<open>x509_checkend\<close> returns a dict for every input. At a
  warning-horizon probe whose command exits with status 1 and writes the bytes
  \<open>0xC3 0x28\<close> to stderr it returns none: it raises \<open>UnicodeDecodeError\<close>.
\<close>

theorem x509_checkend_returns_no_dict:
  "respond world_bad_stderr_late 1 (checkend_cmd cert_pem (14 * 86400))
     = Exited 1 [] [0xC3, 0x28]
   \<and> fst (x509_checkend cert_pem (14 * 86400)
            (snd (x509_checkend cert_pem (7 * 86400) world_bad_stderr_late)))
       = Inl UnicodeDecodeError"
  by (simp add: x509_checkend_fst x509_checkend_snd py_str_small world_bad_stderr_late_def
        cont_def)

text \<open>
  What holds of the dicts: whenever \<open>x509_checkend\<close> returns, it returns a dict whose
  \<open>'result'\<close> is 0, 1 or 2 and which has the key \<open>'message'\<close> when \<open>'result'\<close> is 2; and
  on every input \<open>check_cert_expiry\<close> raises no \<open>KeyError\<close>.
\<close>

lemma result_dict_shape_and_no_KeyError:
  "(\<forall>d. fst (x509_checkend p t w) = Inr d \<longrightarrow>
        (d ''result'' = Some (PInt 0) \<or> d ''result'' = Some (PInt 1)
         \<or> d ''result'' = Some (PInt 2))
        \<and> (d ''result'' = Some (PInt 2) \<longrightarrow> ''message'' \<in> dom d))
   \<and> (\<forall>k. fst (check_cert_expiry g p warn crit w) \<noteq> Inl (KeyError k))"
proof (intro conjI allI impI)
  fix d
  assume h: "fst (x509_checkend p t w) = Inr d"
  from x509_checkend_shape [OF h]
  show "d ''result'' = Some (PInt 0) \<or> d ''result'' = Some (PInt 1)
         \<or> d ''result'' = Some (PInt 2)"
    by blast
  assume "d ''result'' = Some (PInt 2)"
  with x509_checkend_shape [OF h] show "''message'' \<in> dom d"
    by blast
next
  fix k
  have no: "\<And>t w ex. fst (x509_checkend p t w) = Inl ex \<Longrightarrow> ex \<noteq> KeyError k"
    by (auto simp: x509_checkend_raises_iff)
  show "fst (check_cert_expiry g p warn crit w) \<noteq> Inl (KeyError k)"
  proof (cases "fst (x509_checkend p (crit * 86400) w)")
    case (Inl ex)
    with no [OF Inl] show ?thesis
      by (simp add: check_cert_expiry_unfold Let_def)
  next
    case (Inr d)
    note s1 = x509_checkend_shape [OF Inr]
    show ?thesis
    proof (cases "d ''result'' = Some (PInt 0)")
      case False
      with s1 Inr show ?thesis
        by (auto simp: check_cert_expiry_unfold Let_def)
    next
      case True
      let ?w1 = "snd (x509_checkend p (crit * 86400) w)"
      show ?thesis
      proof (cases "fst (x509_checkend p (warn * 86400) ?w1)")
        case (Inl ex)
        with no [OF Inl] True Inr show ?thesis
          by (simp add: check_cert_expiry_unfold Let_def)
      next
        case (Inr d')
        note s2 = x509_checkend_shape [OF Inr]
        from s2 Inr True \<open>fst (x509_checkend p (crit * 86400) w) = Inr d\<close> show ?thesis
          by (auto simp: check_cert_expiry_unfold Let_def split: option.splits)
      qed
    qed
  qed
qed

section \<open>The process\<close>

text \<open>
  Claim C7 says that in every run the exit code is the severity code of the
  classification. In a run where \<open>openssl\<close> exits with status 1 and writes the byte
  \<open>0xFF\<close> to stderr, the classifier raises, there is no classification, and the process
  exits with 1, the code of WARNING. In a run on a valid certificate whose file name holds
  the code point U+DCFF, with a strict UTF-8 stdout, the classification is OK, \<open>print\<close>
  raises, and the process exits with 1, not 0.
\<close>

theorem exit_code_1_without_warning:
  "fst (check_cert_expiry (Some args_default) (cert_filename args_default)
          (warn_days args_default) (crit_days args_default) world_bad_stderr)
     = Inl UnicodeDecodeError
   \<and> fst (main args_default world_bad_stderr)
       = \<lparr>stdout = [], exit_code = STATUS_WARN, uncaught = Some UnicodeDecodeError\<rparr>
   \<and> fst (check_cert_expiry (Some args_odd) (cert_filename args_odd)
            (warn_days args_odd) (crit_days args_odd) world_valid)
       = Inr (STATUS_OK,
              ascii ''OK: Certificate /etc/ssl/cert'' @ [0xDCFF]
              @ ascii ''.pem has more than 14 days before expiry'')
   \<and> fst (main args_odd world_valid)
       = \<lparr>stdout = [], exit_code = 1, uncaught = Some UnicodeEncodeError\<rparr>
   \<and> STATUS_OK \<noteq> 1"
  by (simp add: main_fst check_cert_expiry_unfold Let_def x509_checkend_fst x509_checkend_snd
        py_str_small args_default_def args_odd_def cert_pem_def cert_odd_def
        world_bad_stderr_def world_valid_def will_not_expire_def
        STATUS_OK_def STATUS_WARN_def str_int_def str_nat.simps ascii_def utf8_strict_def)

text \<open>
  What holds of the exit code: when the classifier returns and stdout can encode the
  message, the process exits with the severity, one of OK = 0, WARNING = 1, CRITICAL = 2,
  UNKNOWN = 3.
\<close>

lemma exit_code_when_message_printed:
  assumes "fst (check_cert_expiry (Some a) (cert_filename a) (warn_days a) (crit_days a) w)
             = Inr (status, msg)"
    and "list_all (stdout_encodes w) msg"
  shows "exit_code (fst (main a w)) = status
         \<and> (status = STATUS_OK \<or> status = STATUS_WARN \<or> status = STATUS_CRIT
            \<or> status = STATUS_UNKNOWN)
         \<and> STATUS_OK = 0 \<and> STATUS_WARN = 1 \<and> STATUS_CRIT = 2 \<and> STATUS_UNKNOWN = 3"
  using assms check_cert_expiry_status [OF assms(1)] status_values
  by (auto simp: main_fst)

text \<open>
  Claim C8, as stated, at an unreadable certificate: the diagnostic of \<open>openssl\<close> ends
  with a newline, it is embedded in the message as it is, and \<open>print\<close> adds another: the
  process writes two line terminators to stdout, and nothing was raised.
\<close>

theorem stdout_two_lines_counterexample:
  "uncaught (fst (main args_default world_unreadable)) = None
   \<and> stdout (fst (main args_default world_unreadable))
       = ascii ''UNKNOWN: checking certificate /etc/ssl/cert.pem failed with unable to load certificate''
         @ [10, 10]
   \<and> lines_written (stdout (fst (main args_default world_unreadable))) = 2"
  by (simp add: main_fst check_cert_expiry_unfold Let_def x509_checkend_fst py_str_small
        args_default_def world_unreadable_def unable_to_load_decode cert_pem_def
        lines_written_def ascii_def utf8_strict_def)

text \<open>
  Claim C8, amended. In every run in which the classifier returns a severity and a message
  that stdout can encode, the process writes to stdout that message followed by one
  newline, and nothing else. The message begins with the name of the severity (\<open>OK: \<close>,
  \<open>WARNING: \<close>, \<open>CRITICAL: \<close> or \<open>UNKNOWN: \<close>). What is written is exactly one line if
  and only if the message contains no newline: it is one line whenever the severity is not
  UNKNOWN and the path contains no newline, and it is more than one line when the
  critical-horizon probe is Indeterminate with a reason that contains a newline.
\<close>

theorem stdout_is_message_and_newline:
  assumes "fst (check_cert_expiry (Some a) (cert_filename a) (warn_days a) (crit_days a) w)
             = Inr (status, msg)"
    and "list_all (stdout_encodes w) msg"
  shows "stdout (fst (main a w)) = msg @ [10]
         \<and> uncaught (fst (main a w)) = None
         \<and> (status = STATUS_OK \<longrightarrow> take 4 msg = ascii ''OK: '')
         \<and> (status = STATUS_WARN \<longrightarrow> take 9 msg = ascii ''WARNING: '')
         \<and> (status = STATUS_CRIT \<longrightarrow> take 10 msg = ascii ''CRITICAL: '')
         \<and> (status = STATUS_UNKNOWN \<longrightarrow> take 9 msg = ascii ''UNKNOWN: '')
         \<and> (lines_written (stdout (fst (main a w))) = 1) = (10 \<notin> set msg)
         \<and> (status \<noteq> STATUS_UNKNOWN \<and> 10 \<notin> set (cert_filename a) \<longrightarrow>
              lines_written (stdout (fst (main a w))) = 1)
         \<and> (\<forall>d m. fst (x509_checkend (cert_filename a) (crit_days a * 86400) w) = Inr d
                 \<and> d ''result'' = Some (PInt 2) \<and> d ''message'' = Some m
                 \<and> 10 \<in> set (str_of m) \<longrightarrow>
               status = STATUS_UNKNOWN \<and> 1 < lines_written (stdout (fst (main a w))))"
proof -
  have out: "stdout (fst (main a w)) = msg @ [10]" and un: "uncaught (fst (main a w)) = None"
    using assms by (simp_all add: main_fst)
  note pre = check_cert_expiry_message_prefix [OF assms(1)]
  have one: "(lines_written (stdout (fst (main a w))) = 1) = (10 \<notin> set msg)"
    using lines_written_0 [of msg] by (simp add: out lines_written_print)
  have plain: "status \<noteq> STATUS_UNKNOWN \<and> 10 \<notin> set (cert_filename a) \<longrightarrow>
                 lines_written (stdout (fst (main a w))) = 1"
    using check_cert_expiry_message_no_newline [OF assms(1)] one by blast
  have unk: "\<forall>d m. fst (x509_checkend (cert_filename a) (crit_days a * 86400) w) = Inr d
                 \<and> d ''result'' = Some (PInt 2) \<and> d ''message'' = Some m
                 \<and> 10 \<in> set (str_of m) \<longrightarrow>
               status = STATUS_UNKNOWN \<and> 1 < lines_written (stdout (fst (main a w)))"
  proof (intro allI impI)
    fix d m
    assume h: "fst (x509_checkend (cert_filename a) (crit_days a * 86400) w) = Inr d
                 \<and> d ''result'' = Some (PInt 2) \<and> d ''message'' = Some m
                 \<and> 10 \<in> set (str_of m)"
    then have u: "status = STATUS_UNKNOWN
         \<and> msg = ascii ''UNKNOWN: checking certificate '' @ cert_filename a
                 @ ascii '' failed with '' @ str_of m"
      using check_cert_expiry_unknown_message [OF assms(1)] by blast
    with h have "10 \<in> set msg"
      by simp
    then have "lines_written msg \<noteq> 0"
      by (simp add: lines_written_0)
    then have "1 < lines_written (stdout (fst (main a w)))"
      by (simp add: out lines_written_print)
    with u show "status = STATUS_UNKNOWN \<and> 1 < lines_written (stdout (fst (main a w)))"
      by blast
  qed
  from out un pre one plain unk show ?thesis
    by blast
qed

text \<open>
  C8, amended, in a run with a certificate that expires within 7 days (one line) and in a
  run with an unreadable certificate (more than one line).
\<close>

theorem stdout_is_message_and_newline_witness:
  "fst (check_cert_expiry (Some args_default) (cert_filename args_default)
          (warn_days args_default) (crit_days args_default) world_expiring)
     = Inr (2, ascii ''CRITICAL: Certificate /etc/ssl/cert.pem due to expire in less than 7 days.'')
   \<and> list_all (stdout_encodes world_expiring)
         (ascii ''CRITICAL: Certificate /etc/ssl/cert.pem due to expire in less than 7 days.'')
   \<and> 2 = STATUS_CRIT \<and> 2 \<noteq> STATUS_UNKNOWN \<and> 10 \<notin> set (cert_filename args_default)
   \<and> stdout (fst (main args_default world_expiring))
       = ascii ''CRITICAL: Certificate /etc/ssl/cert.pem due to expire in less than 7 days.'' @ [10]
   \<and> uncaught (fst (main args_default world_expiring)) = None
   \<and> take 10 (ascii ''CRITICAL: Certificate /etc/ssl/cert.pem due to expire in less than 7 days.'')
       = ascii ''CRITICAL: ''
   \<and> lines_written (stdout (fst (main args_default world_expiring))) = 1
   \<and> fst (check_cert_expiry (Some args_default) (cert_filename args_default)
            (warn_days args_default) (crit_days args_default) world_unreadable)
       = Inr (3, ascii ''UNKNOWN: checking certificate /etc/ssl/cert.pem failed with unable to load certificate'' @ [10])
   \<and> 1 < lines_written (stdout (fst (main args_default world_unreadable)))"
proof -
  have h: "fst (check_cert_expiry (Some args_default) (cert_filename args_default)
          (warn_days args_default) (crit_days args_default) world_expiring)
     = Inr (2, ascii ''CRITICAL: Certificate /etc/ssl/cert.pem due to expire in less than 7 days.'')"
    by (simp add: check_cert_expiry_unfold Let_def x509_checkend_fst x509_checkend_snd
          py_str_small args_default_def world_expiring_def will_expire_def STATUS_CRIT_def
          cert_pem_def str_int_def str_nat.simps ascii_def)
  have e: "list_all (stdout_encodes world_expiring)
         (ascii ''CRITICAL: Certificate /etc/ssl/cert.pem due to expire in less than 7 days.'')"
    by (simp add: world_expiring_def ascii_def utf8_strict_def)
  have n: "2 = STATUS_CRIT \<and> 2 \<noteq> STATUS_UNKNOWN \<and> 10 \<notin> set (cert_filename args_default)"
    by (simp add: STATUS_CRIT_def STATUS_UNKNOWN_def args_default_def cert_pem_def ascii_def)
  have p: "fst (x509_checkend (cert_filename args_default) (crit_days args_default * 86400)
                 world_unreadable)
           = Inr [''result'' \<mapsto> PInt 2,
                  ''message'' \<mapsto> PStr (ascii ''unable to load certificate'' @ [10])]"
    by (simp add: x509_checkend_fst py_str_small args_default_def world_unreadable_def
          unable_to_load_decode)
  have h': "fst (check_cert_expiry (Some args_default) (cert_filename args_default)
            (warn_days args_default) (crit_days args_default) world_unreadable)
       = Inr (3, ascii ''UNKNOWN: checking certificate /etc/ssl/cert.pem failed with unable to load certificate'' @ [10])"
    using p
    by (simp add: check_cert_expiry_unfold Let_def args_default_def STATUS_UNKNOWN_def
          cert_pem_def ascii_def)
  have e': "list_all (stdout_encodes world_unreadable)
         (ascii ''UNKNOWN: checking certificate /etc/ssl/cert.pem failed with unable to load certificate'' @ [10])"
    by (simp add: world_unreadable_def ascii_def utf8_strict_def)
  have m: "[''result'' \<mapsto> PInt 2,
            ''message'' \<mapsto> PStr (ascii ''unable to load certificate'' @ [10])] ''result''
             = Some (PInt 2)
           \<and> [''result'' \<mapsto> PInt 2,
            ''message'' \<mapsto> PStr (ascii ''unable to load certificate'' @ [10])] ''message''
             = Some (PStr (ascii ''unable to load certificate'' @ [10]))
           \<and> 10 \<in> set (str_of (PStr (ascii ''unable to load certificate'' @ [10])))"
    by simp
  from stdout_is_message_and_newline [OF h e] n
  have first: "stdout (fst (main args_default world_expiring))
       = ascii ''CRITICAL: Certificate /etc/ssl/cert.pem due to expire in less than 7 days.'' @ [10]
   \<and> uncaught (fst (main args_default world_expiring)) = None
   \<and> take 10 (ascii ''CRITICAL: Certificate /etc/ssl/cert.pem due to expire in less than 7 days.'')
       = ascii ''CRITICAL: ''
   \<and> lines_written (stdout (fst (main args_default world_expiring))) = 1"
    by blast
  from stdout_is_message_and_newline [OF h' e'] p m
  have second: "1 < lines_written (stdout (fst (main args_default world_unreadable)))"
    by blast
  from h e n first h' second show ?thesis
    by blast
qed

end
